theory Spec2Isabelle
  imports Complex_Main
begin

section \<open>Python values and errors\<close>

text \<open>
  The exceptions the two node modules can raise or propagate. \<open>GenericException\<close> is
  Python's plain \<^verbatim>\<open>Exception(msg)\<close>.
\<close>

datatype py_error =
  IndexError | TypeError | NameError | ValueError | RuntimeError | GenericException string

text \<open>
  A value read from a numeric socket: an int, a float (of an abstract numeric type
  \<open>'n\<close>), a list of such values or a tuple of such values. Lists and tuples are kept
  apart because the two nodes test for them differently.
\<close>

datatype 'n sv_item =
  IntV int | FloatV 'n | ListV "'n sv_item list" | TupleV "'n sv_item list"

definition and_then :: "'e + 'a \<Rightarrow> ('a \<Rightarrow> 'e + 'b) \<Rightarrow> 'e + 'b" where
  "and_then r k = (case r of Inl e \<Rightarrow> Inl e | Inr v \<Rightarrow> k v)"

text \<open>Python's \<^verbatim>\<open>any\<close> over a sequence of booleans.\<close>

primrec py_any :: "bool list \<Rightarrow> bool" where
  "py_any [] = False"
| "py_any (b # bs) = (b \<or> py_any bs)"

text \<open>\<^verbatim>\<open>xs[0]\<close>: raises IndexError on an empty sequence.\<close>

fun index0 :: "'a list \<Rightarrow> py_error + 'a" where
  "index0 [] = Inl IndexError"
| "index0 (x # xs) = Inr x"

section \<open>nodes/field/attractor_field.py\<close>

text \<open>
  attractor_field.py, lines 130-133:
  \<^verbatim>\<open>if isinstance(amplitude, (list, tuple)): amplitude = amplitude[0]\<close>
\<close>

fun first_if_list_or_tuple :: "'n sv_item \<Rightarrow> py_error + 'n sv_item" where
  "first_if_list_or_tuple (ListV xs) = index0 xs"
| "first_if_list_or_tuple (TupleV xs) = index0 xs"
| "first_if_list_or_tuple (IntV i) = Inr (IntV i)"
| "first_if_list_or_tuple (FloatV x) = Inr (FloatV x)"

text \<open>
  The host's spatial index (mathutils.kdtree) is not among the sources. A tree is
  represented by what \<^verbatim>\<open>to_point\<close> does to it: the capacity it was created with, the
  (point, index) pairs inserted so far, in insertion order, and whether
  \<^verbatim>\<open>balance()\<close> has been called since the last insertion.
\<close>

datatype 'v kdtree = KDTree (kd_size: nat) (kd_items: "('v \<times> nat) list") (kd_balanced: bool)

definition kdtree_new :: "nat \<Rightarrow> 'v kdtree" where
  "kdtree_new n = KDTree n [] False"

definition kdtree_insert :: "'v kdtree \<Rightarrow> 'v \<Rightarrow> nat \<Rightarrow> 'v kdtree" where
  "kdtree_insert kdt v i = KDTree (kd_size kdt) (kd_items kdt @ [(v, i)]) False"

definition kdtree_balance :: "'v kdtree \<Rightarrow> 'v kdtree" where
  "kdtree_balance kdt = KDTree (kd_size kdt) (kd_items kdt) True"

text \<open>
  The field classes of sverchok_extra.data are not among the sources: a field object is
  represented by the constructor call that builds it, with its arguments. \<open>'v\<close> is the
  type of a 3D vector (\<^verbatim>\<open>np.array\<close> of a vector is the vector), \<open>'f\<close> the type of a
  falloff function; the falloff argument is \<open>None\<close> for Python's None.
\<close>

datatype ('v, 'f) scalar_field =
    SvExScalarFieldPointDistance 'v "'f option"
  | SvExMergedScalarField string "('v, 'f) scalar_field list"
  | SvExKdtScalarField "'v kdtree" "'f option"
  | SvExLineAttractorScalarField 'v 'v "'f option"
  | SvExPlaneAttractorScalarField 'v 'v "'f option"

datatype ('v, 'f) vector_field =
    SvExVectorFieldPointDistance 'v "'f option"
  | SvExAverageVectorField "('v, 'f) vector_field list"
  | SvExKdtVectorField "'v kdtree" "'f option"
  | SvExLineAttractorVectorField 'v 'v "'f option"
  | SvExPlaneAttractorVectorField 'v 'v "'f option"

text \<open>
  The node's properties that \<^verbatim>\<open>process\<close> reads, and the \<^verbatim>\<open>is_linked\<close> flag of each
  output socket. The enum properties are kept as the strings the code compares them with.
\<close>

record attractor_node =
  falloff_type :: string
  clamp :: bool
  attractor_type :: string
  point_mode :: string
  outputs_linked :: "bool list"

text \<open>
  \<^verbatim>\<open>for i, v in enumerate(centers): kdt.insert(v, i)\<close>, with the running index.
\<close>

fun insert_enumerated :: "'v kdtree \<Rightarrow> nat \<Rightarrow> 'v list \<Rightarrow> 'v kdtree" where
  "insert_enumerated kdt i [] = kdt"
| "insert_enumerated kdt i (v # vs) = insert_enumerated (kdtree_insert kdt v i) (Suc i) vs"

text \<open>\<^verbatim>\<open>to_point\<close> returns the pair \<^verbatim>\<open>(vfield, sfield)\<close>.\<close>

definition to_point ::
  "attractor_node \<Rightarrow> 'v list \<Rightarrow> 'f option \<Rightarrow> ('v, 'f) vector_field \<times> ('v, 'f) scalar_field" where
  "to_point node centers falloff =
     (let n = length centers in
      if n = 1 then
        (SvExVectorFieldPointDistance (hd centers) falloff,
         SvExScalarFieldPointDistance (hd centers) falloff)
      else if point_mode node = ''AVG'' then
        (let sfields = map (\<lambda>center. SvExScalarFieldPointDistance center falloff) centers;
             sfield = SvExMergedScalarField ''AVG'' sfields;
             vfields = map (\<lambda>center. SvExVectorFieldPointDistance center falloff) centers;
             vfield = SvExAverageVectorField vfields
         in (vfield, sfield))
      else
        (let kdt = kdtree_new (length centers);
             kdt = insert_enumerated kdt 0 centers;
             kdt = kdtree_balance kdt
         in (SvExKdtVectorField kdt falloff, SvExKdtScalarField kdt falloff)))"

definition to_line ::
  "'v \<Rightarrow> 'v \<Rightarrow> 'f option \<Rightarrow> ('v, 'f) vector_field \<times> ('v, 'f) scalar_field" where
  "to_line center direction falloff =
     (SvExLineAttractorVectorField center direction falloff,
      SvExLineAttractorScalarField center direction falloff)"

definition to_plane ::
  "'v \<Rightarrow> 'v \<Rightarrow> 'f option \<Rightarrow> ('v, 'f) vector_field \<times> ('v, 'f) scalar_field" where
  "to_plane center direction falloff =
     (SvExPlaneAttractorVectorField center direction falloff,
      SvExPlaneAttractorScalarField center direction falloff)"

text \<open>
  One object of the loop in \<^verbatim>\<open>process\<close> (lines 129-147): the tuple
  \<^verbatim>\<open>(centers, direction, amplitude, coefficient)\<close>. The function
  \<^verbatim>\<open>falloff\<close> of sverchok_extra.utils is a parameter; it may raise.
\<close>

type_synonym ('v, 'n) attractor_object = "'v list \<times> 'v list \<times> 'n sv_item \<times> 'n sv_item"

definition process_object ::
  "attractor_node \<Rightarrow> (string \<Rightarrow> 'n sv_item \<Rightarrow> 'n sv_item \<Rightarrow> bool \<Rightarrow> py_error + 'f) \<Rightarrow>
   ('v, 'n) attractor_object \<Rightarrow> py_error + (('v, 'f) vector_field \<times> ('v, 'f) scalar_field)" where
  "process_object node falloff obj =
     (case obj of (centers, direction, amplitude, coefficient) \<Rightarrow>
        and_then (first_if_list_or_tuple amplitude) (\<lambda>amplitude.
        and_then (first_if_list_or_tuple coefficient) (\<lambda>coefficient.
        and_then (if falloff_type node = ''NONE'' then Inr None
                  else and_then (falloff (falloff_type node) amplitude coefficient (clamp node))
                         (\<lambda>f. Inr (Some f))) (\<lambda>falloff_func.
          if attractor_type node = ''Point'' then Inr (to_point node centers falloff_func)
          else if attractor_type node = ''Line'' then
            and_then (index0 centers) (\<lambda>center.
            and_then (index0 direction) (\<lambda>dir. Inr (to_line center dir falloff_func)))
          else if attractor_type node = ''Plane'' then
            and_then (index0 centers) (\<lambda>center.
            and_then (index0 direction) (\<lambda>dir. Inr (to_plane center dir falloff_func)))
          else Inl (GenericException ''not implemented yet'')))))"

text \<open>
  The loop over the objects, with the two output lists it appends to. An exception
  leaves the loop.
\<close>

fun process_objects ::
  "attractor_node \<Rightarrow> (string \<Rightarrow> 'n sv_item \<Rightarrow> 'n sv_item \<Rightarrow> bool \<Rightarrow> py_error + 'f) \<Rightarrow>
   ('v, 'n) attractor_object list \<Rightarrow>
   ('v, 'f) vector_field list \<times> ('v, 'f) scalar_field list \<Rightarrow>
   py_error + (('v, 'f) vector_field list \<times> ('v, 'f) scalar_field list)" where
  "process_objects node falloff [] out = Inr out"
| "process_objects node falloff (obj # objs) out =
     and_then (process_object node falloff obj) (\<lambda>(vfield, sfield).
       process_objects node falloff objs (fst out @ [vfield], snd out @ [sfield]))"

text \<open>
  \<^verbatim>\<open>process\<close>. The argument \<open>objects\<close> is the list that
  \<^verbatim>\<open>zip_long_repeat(center_s, directions_s, amplitudes_s, coefficients_s)\<close> yields.
  The result is \<open>Inr None\<close> when the method returns without writing an output socket,
  \<open>Inr (Some (vfields_out, sfields_out))\<close> when it writes the two sockets, and
  \<open>Inl e\<close> when it raises.
\<close>

definition process ::
  "attractor_node \<Rightarrow> (string \<Rightarrow> 'n sv_item \<Rightarrow> 'n sv_item \<Rightarrow> bool \<Rightarrow> py_error + 'f) \<Rightarrow>
   ('v, 'n) attractor_object list \<Rightarrow>
   py_error + (('v, 'f) vector_field list \<times> ('v, 'f) scalar_field list) option" where
  "process node falloff objects =
     (if \<not> py_any (outputs_linked node) then Inr None
      else and_then (process_objects node falloff objects ([], [])) (\<lambda>out. Inr (Some out)))"

text \<open>
  A falloff function that never raises and is identified by the arguments it was
  built from; used to run \<^verbatim>\<open>process\<close> on concrete inputs.
\<close>

datatype 'n falloff_closure = FalloffClosure string "'n sv_item" "'n sv_item" bool

definition falloff_closure ::
  "string \<Rightarrow> 'n sv_item \<Rightarrow> 'n sv_item \<Rightarrow> bool \<Rightarrow> py_error + 'n falloff_closure" where
  "falloff_closure t amplitude coefficient clamped = Inr (FalloffClosure t amplitude coefficient clamped)"

text \<open>The first center and the first direction of an object, the rest dropped.\<close>

definition first_center_and_direction :: "('v, 'n) attractor_object \<Rightarrow> ('v, 'n) attractor_object" where
  "first_center_and_direction obj =
     (case obj of (centers, direction, amplitude, coefficient) \<Rightarrow>
        (take 1 centers, take 1 direction, amplitude, coefficient))"

section \<open>nodes/curve/rbf_curve.py\<close>

text \<open>
  rbf_curve.py, lines 66-69:
  \<^verbatim>\<open>if isinstance(epsilon, (list, int)): epsilon = epsilon[0]\<close>.
  An int is not subscriptable: Python raises TypeError there. A tuple is neither a list
  nor an int: it is passed on as it is, also when it is empty.
\<close>

fun first_if_list_or_int :: "'n sv_item \<Rightarrow> py_error + 'n sv_item" where
  "first_if_list_or_int (ListV xs) = index0 xs"
| "first_if_list_or_int (IntV i) = Inl TypeError"
| "first_if_list_or_int (TupleV xs) = Inr (TupleV xs)"
| "first_if_list_or_int (FloatV x) = Inr (FloatV x)"

text \<open>
  Modelled from the spec: the class SvExRbfCurve of sverchok_extra.data.curve is not
  among the sources; the spec describes it as "a curve object wrapping a fitted RBF
  interpolant over a parameter domain". The record holds the two constructor arguments
  of \<^verbatim>\<open>SvExRbfCurve(rbf, (0.0, 1.0))\<close>.
\<close>

record 'r SvExRbfCurve =
  rbf :: 'r
  u_bounds :: "real \<times> real"

record rbf_curve_node =
  rbf_function :: string
  curve_outputs_linked :: "bool list"

text \<open>
  One object of the loop in \<^verbatim>\<open>SvExRbfCurveNode.process\<close> (lines 65-78): the tuple
  \<^verbatim>\<open>(vertices, epsilon, smooth)\<close>. The host's \<^verbatim>\<open>make_euclidian_ts\<close> and scipy's
  \<^verbatim>\<open>Rbf\<close> are parameters; either may raise. \<^verbatim>\<open>Rbf\<close> receives ts, the vertices, and
  the keyword arguments function, smooth, epsilon and mode.
\<close>

type_synonym ('v, 'n) curve_object = "'v list \<times> 'n sv_item \<times> 'n sv_item"

definition process_curve_object ::
  "rbf_curve_node \<Rightarrow> ('v list \<Rightarrow> py_error + 't) \<Rightarrow>
   ('t \<Rightarrow> 'v list \<Rightarrow> string \<Rightarrow> 'n sv_item \<Rightarrow> 'n sv_item \<Rightarrow> string \<Rightarrow> py_error + 'r) \<Rightarrow>
   ('v, 'n) curve_object \<Rightarrow> py_error + 'r SvExRbfCurve" where
  "process_curve_object node make_ts Rbf obj =
     (case obj of (vertices, epsilon, smooth) \<Rightarrow>
        and_then (first_if_list_or_int epsilon) (\<lambda>epsilon.
        and_then (first_if_list_or_int smooth) (\<lambda>smooth.
        and_then (make_ts vertices) (\<lambda>ts.
        and_then (Rbf ts vertices (rbf_function node) smooth epsilon ''N-D'') (\<lambda>fitted.
          Inr \<lparr>rbf = fitted, u_bounds = (0.0, 1.0)\<rparr>)))))"

fun process_curve_objects ::
  "rbf_curve_node \<Rightarrow> ('v list \<Rightarrow> py_error + 't) \<Rightarrow>
   ('t \<Rightarrow> 'v list \<Rightarrow> string \<Rightarrow> 'n sv_item \<Rightarrow> 'n sv_item \<Rightarrow> string \<Rightarrow> py_error + 'r) \<Rightarrow>
   ('v, 'n) curve_object list \<Rightarrow> 'r SvExRbfCurve list \<Rightarrow> py_error + 'r SvExRbfCurve list" where
  "process_curve_objects node make_ts Rbf [] curves_out = Inr curves_out"
| "process_curve_objects node make_ts Rbf (obj # objs) curves_out =
     and_then (process_curve_object node make_ts Rbf obj) (\<lambda>curve.
       process_curve_objects node make_ts Rbf objs (curves_out @ [curve]))"

text \<open>
  \<^verbatim>\<open>SvExRbfCurveNode.process\<close>; \<open>objects\<close> is what
  \<^verbatim>\<open>zip_long_repeat(vertices_s, epsilon_s, smooth_s)\<close> yields. \<open>Inr None\<close>: returned
  without writing the output socket.
\<close>

definition process_curves ::
  "rbf_curve_node \<Rightarrow> ('v list \<Rightarrow> py_error + 't) \<Rightarrow>
   ('t \<Rightarrow> 'v list \<Rightarrow> string \<Rightarrow> 'n sv_item \<Rightarrow> 'n sv_item \<Rightarrow> string \<Rightarrow> py_error + 'r) \<Rightarrow>
   ('v, 'n) curve_object list \<Rightarrow> py_error + 'r SvExRbfCurve list option" where
  "process_curves node make_ts Rbf objects =
     (if \<not> py_any (curve_outputs_linked node) then Inr None
      else and_then (process_curve_objects node make_ts Rbf objects []) (\<lambda>out. Inr (Some out)))"

subsection \<open>Module level: the scipy guard and registration\<close>

text \<open>
  The top level of a module, statement by statement, as far as it binds global names:
  an import, a class definition, a function definition, and a block under the test
  \<^verbatim>\<open>if scipy is not None:\<close>.
\<close>

datatype module_stmt =
    Import "string list"
  | ClassDef string
  | FunctionDef string
  | IfScipyIsNotNone "module_stmt list"

text \<open>
  The names a statement binds when the module is executed. \<open>scipy\<close> is the value
  imported from sverchok_extra.dependencies: \<open>None\<close>, or the module. An import is
  taken to succeed.
\<close>

fun bound_names :: "'s option \<Rightarrow> module_stmt \<Rightarrow> string list" where
  "bound_names scipy (Import names) = names"
| "bound_names scipy (ClassDef name) = [name]"
| "bound_names scipy (FunctionDef name) = [name]"
| "bound_names scipy (IfScipyIsNotNone body) =
     (if scipy \<noteq> None then concat (map (bound_names scipy) body) else [])"

text \<open>The top level of rbf_curve.py, lines 2-88.\<close>

definition rbf_curve_module :: "module_stmt list" where
  "rbf_curve_module =
     [Import [''np''],
      Import [''bpy''],
      Import [''FloatProperty'', ''EnumProperty'', ''BoolProperty'', ''IntProperty''],
      Import [''SverchCustomTreeNode'', ''throttled''],
      Import [''updateNode'', ''zip_long_repeat'', ''ensure_nesting_level''],
      Import [''info'', ''exception''],
      Import [''make_euclidian_ts''],
      Import [''rbf_functions''],
      Import [''SvExRbfCurve''],
      Import [''scipy''],
      IfScipyIsNotNone
        [Import [''Rbf''],
         ClassDef ''SvExRbfCurveNode''],
      FunctionDef ''register'',
      FunctionDef ''unregister'']"

definition module_names :: "'s option \<Rightarrow> string list" where
  "module_names scipy = concat (map (bound_names scipy) rbf_curve_module)"

text \<open>Looking a global name up: NameError when the module never bound it.\<close>

definition lookup_global :: "'s option \<Rightarrow> string \<Rightarrow> py_error + string" where
  "lookup_global scipy name = (if name \<in> set (module_names scipy) then Inr name else Inl NameError)"

text \<open>
  \<^verbatim>\<open>register\<close> and \<^verbatim>\<open>unregister\<close>, lines 82-88. The host's
  \<^verbatim>\<open>bpy.utils.register_class\<close> and \<^verbatim>\<open>bpy.utils.unregister_class\<close> are parameters:
  they take the class and the state \<open>'h\<close> of the host and return the new state, or
  raise; what they raise leaves the function. Each global name the body reads is looked
  up in the names the module bound, in the order Python evaluates them.
\<close>

definition register ::
  "'s option \<Rightarrow> (string \<Rightarrow> 'h \<Rightarrow> py_error + 'h) \<Rightarrow> 'h \<Rightarrow> py_error + 'h" where
  "register scipy register_class host =
     and_then (lookup_global scipy ''scipy'') (\<lambda>_.
       if scipy \<noteq> None then
         and_then (lookup_global scipy ''bpy'') (\<lambda>_.
         and_then (lookup_global scipy ''SvExRbfCurveNode'') (\<lambda>cls.
           register_class cls host))
       else Inr host)"

definition unregister ::
  "'s option \<Rightarrow> (string \<Rightarrow> 'h \<Rightarrow> py_error + 'h) \<Rightarrow> 'h \<Rightarrow> py_error + 'h" where
  "unregister scipy unregister_class host =
     and_then (lookup_global scipy ''scipy'') (\<lambda>_.
       if scipy \<noteq> None then
         and_then (lookup_global scipy ''bpy'') (\<lambda>_.
         and_then (lookup_global scipy ''SvExRbfCurveNode'') (\<lambda>cls.
           unregister_class cls host))
       else Inr host)"

text \<open>
  The host's class registry is not among the sources. To run \<^verbatim>\<open>register\<close> and
  \<^verbatim>\<open>unregister\<close> on concrete inputs: the registry as the list of the registered
  class names, where registering a class that is registered raises ValueError and
  unregistering one that is not raises RuntimeError.
\<close>

definition bpy_register_class :: "string \<Rightarrow> string list \<Rightarrow> py_error + string list" where
  "bpy_register_class cls registry =
     (if cls \<in> set registry then Inl ValueError else Inr (registry @ [cls]))"

definition bpy_unregister_class :: "string \<Rightarrow> string list \<Rightarrow> py_error + string list" where
  "bpy_unregister_class cls registry =
     (if cls \<in> set registry then Inr (removeAll cls registry) else Inl RuntimeError)"

subsection \<open>The arc-length parametrisation\<close>

type_synonym point = "real \<times> real \<times> real"

definition euclidean_distance :: "point \<Rightarrow> point \<Rightarrow> real" where
  "euclidean_distance p q =
     (case p of (x, y, z) \<Rightarrow> case q of (x', y', z') \<Rightarrow>
        sqrt ((x - x')\<^sup>2 + (y - y')\<^sup>2 + (z - z')\<^sup>2))"

text \<open>
  Modelled from the spec: \<^verbatim>\<open>make_euclidian_ts\<close> is imported (from
  sverchok.utils.curve) and is not among the sources. The spec: it "computes a
  monotonically increasing parameter value per point equal to cumulative Euclidean
  distance from the first point, normalized or left raw". The model walks the points
  once with a running total; normalising divides every value by the last one and has
  no result when that total length is zero.
\<close>

fun cumulative_from :: "real \<Rightarrow> point \<Rightarrow> point list \<Rightarrow> real list" where
  "cumulative_from travelled p [] = [travelled]"
| "cumulative_from travelled p (q # ps) =
     travelled # cumulative_from (travelled + euclidean_distance p q) q ps"

fun cumulative_distances :: "point list \<Rightarrow> real list" where
  "cumulative_distances [] = []"
| "cumulative_distances (p # ps) = cumulative_from 0 p ps"

definition make_euclidian_ts :: "bool \<Rightarrow> point list \<Rightarrow> real list option" where
  "make_euclidian_ts normalized pts =
     (let ts = cumulative_distances pts in
      if \<not> normalized then Some ts
      else if ts = [] \<or> last ts = 0 then None
      else Some (map (\<lambda>t. t / last ts) ts))"

text \<open>
  The spec's words, point by point: the length of the polyline from the first point to
  point number \<open>i\<close>.
\<close>

primrec path_length :: "point list \<Rightarrow> nat \<Rightarrow> real" where
  "path_length pts 0 = 0"
| "path_length pts (Suc i) = path_length pts i + euclidean_distance (pts ! i) (pts ! Suc i)"

text \<open>
  A stand-in for scipy's \<^verbatim>\<open>Rbf\<close> that never raises and is identified by the arguments
  it was fitted from; used to run \<^verbatim>\<open>process\<close> on concrete inputs.
\<close>

datatype ('t, 'v, 'n) rbf_closure = RbfClosure 't "'v list" string "'n sv_item" "'n sv_item" string

definition rbf_closure ::
  "'t \<Rightarrow> 'v list \<Rightarrow> string \<Rightarrow> 'n sv_item \<Rightarrow> 'n sv_item \<Rightarrow> string \<Rightarrow> py_error + ('t, 'v, 'n) rbf_closure" where
  "rbf_closure ts vertices func smooth epsilon mode = Inr (RbfClosure ts vertices func smooth epsilon mode)"

section \<open>Properties of the attractor-field node\<close>

lemma and_then_Inl [simp]: "and_then (Inl e) k = Inl e"
  by (simp add: and_then_def)

lemma and_then_Inr [simp]: "and_then (Inr v) k = k v"
  by (simp add: and_then_def)

lemma index0_take1: "index0 (take (Suc 0) xs) = index0 xs"
  by (cases xs) simp_all

subsection \<open>A single center: the point mode is not consulted\<close>

lemma to_point_single_mode:
  "length centers = 1 \<Longrightarrow> to_point (node\<lparr>point_mode := m\<rparr>) centers f = to_point node centers f"
  by (simp add: to_point_def)

lemma process_object_single_mode:
  "length (fst obj) = 1 \<Longrightarrow>
     process_object (node\<lparr>point_mode := m\<rparr>) falloff obj = process_object node falloff obj"
  by (cases obj) (simp add: process_object_def to_point_single_mode cong: if_cong)

lemma process_objects_single_mode:
  "\<forall>obj \<in> set objects. length (fst obj) = 1 \<Longrightarrow>
     process_objects (node\<lparr>point_mode := m\<rparr>) falloff objects out
       = process_objects node falloff objects out"
  by (induction objects arbitrary: out) (simp_all add: process_object_single_mode)

text \<open>
  Claim C5. When every object holds exactly one attractor point, \<^verbatim>\<open>process\<close> gives the
  same result (the same vector and scalar fields, or the same exception) with the point
  mode set to 'MIN' as with the point mode set to 'AVG', all other properties and inputs
  being equal.
\<close>

theorem point_modes_agree_on_single_center:
  assumes "\<forall>obj \<in> set objects. length (fst obj) = 1"
  shows "process (node\<lparr>point_mode := ''MIN''\<rparr>) falloff objects
           = process (node\<lparr>point_mode := ''AVG''\<rparr>) falloff objects"
  using assms by (simp add: process_def process_objects_single_mode)

theorem point_modes_agree_on_single_center_witness:
  "length (fst ([(1::int)], [] :: int list, FloatV (2::int), FloatV (3::int))) = 1 \<and>
   process \<lparr>falloff_type = ''gauss'', clamp = True, attractor_type = ''Point'',
            point_mode = ''MIN'', outputs_linked = [True, False]\<rparr>
      falloff_closure [([(1::int)], [], FloatV (2::int), FloatV 3)]
    = Inr (Some ([SvExVectorFieldPointDistance 1 (Some (FalloffClosure ''gauss'' (FloatV 2) (FloatV 3) True))],
                 [SvExScalarFieldPointDistance 1 (Some (FalloffClosure ''gauss'' (FloatV 2) (FloatV 3) True))])) \<and>
   process \<lparr>falloff_type = ''gauss'', clamp = True, attractor_type = ''Point'',
            point_mode = ''AVG'', outputs_linked = [True, False]\<rparr>
      falloff_closure [([(1::int)], [], FloatV (2::int), FloatV 3)]
    = Inr (Some ([SvExVectorFieldPointDistance 1 (Some (FalloffClosure ''gauss'' (FloatV 2) (FloatV 3) True))],
                 [SvExScalarFieldPointDistance 1 (Some (FalloffClosure ''gauss'' (FloatV 2) (FloatV 3) True))]))"
  using point_modes_agree_on_single_center
    [of "[([(1::int)], [], FloatV (2::int), FloatV 3)]"
        "\<lparr>falloff_type = ''gauss'', clamp = True, attractor_type = ''Point'',
            point_mode = ''AVG'', outputs_linked = [True, False]\<rparr>" falloff_closure]
  by (simp add: process_def process_object_def to_point_def falloff_closure_def)

subsection \<open>Several centers: averaging or the spatial index\<close>

lemma insert_enumerated_items:
  "kd_items (insert_enumerated kdt i vs) = kd_items kdt @ zip vs [i ..< i + length vs]"
proof (induction vs arbitrary: kdt i)
  case Nil
  then show ?case by simp
next
  case (Cons v vs)
  have "[i ..< i + length (v # vs)] = i # [Suc i ..< Suc i + length vs]"
    using upt_conv_Cons [of i "i + Suc (length vs)"] by simp
  then show ?case
    by (simp add: Cons.IH kdtree_insert_def)
qed

lemma insert_enumerated_size:
  "kd_size (insert_enumerated kdt i vs) = kd_size kdt"
  by (induction vs arbitrary: kdt i) (simp_all add: kdtree_insert_def)

text \<open>
  Claim C6. For two or more point attractors, \<^verbatim>\<open>to_point\<close> is selected by the point
  mode: with 'AVG' the vector field is the average of the per-point fields and the scalar
  field is the 'AVG' merge of the per-point fields, one per center and in the order of the
  centers; with 'MIN' both fields are nearest-neighbour fields over one and the same
  spatial index, which is balanced, has the capacity of the number of centers, and holds
  exactly the centers, each under its position in the input.
\<close>

theorem to_point_multiple_selected_by_mode:
  assumes "2 \<le> length centers"
  shows "(point_mode node = ''AVG'' \<longrightarrow>
            to_point node centers falloff =
              (SvExAverageVectorField (map (\<lambda>c. SvExVectorFieldPointDistance c falloff) centers),
               SvExMergedScalarField ''AVG'' (map (\<lambda>c. SvExScalarFieldPointDistance c falloff) centers)))
       \<and> (point_mode node = ''MIN'' \<longrightarrow>
            (\<exists>kdt. to_point node centers falloff =
                     (SvExKdtVectorField kdt falloff, SvExKdtScalarField kdt falloff)
                 \<and> kd_balanced kdt
                 \<and> kd_size kdt = length centers
                 \<and> kd_items kdt = zip centers [0 ..< length centers]))"
proof -
  have n: "length centers \<noteq> 1" using assms by simp
  have avg: "point_mode node = ''AVG'' \<Longrightarrow>
            to_point node centers falloff =
              (SvExAverageVectorField (map (\<lambda>c. SvExVectorFieldPointDistance c falloff) centers),
               SvExMergedScalarField ''AVG'' (map (\<lambda>c. SvExScalarFieldPointDistance c falloff) centers))"
    using n by (simp add: to_point_def)
  have nearest: "point_mode node = ''MIN'' \<Longrightarrow>
            to_point node centers falloff =
              (SvExKdtVectorField (kdtree_balance (insert_enumerated (kdtree_new (length centers)) 0 centers)) falloff,
               SvExKdtScalarField (kdtree_balance (insert_enumerated (kdtree_new (length centers)) 0 centers)) falloff)"
    using n by (simp add: to_point_def Let_def)
  have tree: "kd_balanced (kdtree_balance (insert_enumerated (kdtree_new (length centers)) 0 centers))
      \<and> kd_size (kdtree_balance (insert_enumerated (kdtree_new (length centers)) 0 centers)) = length centers
      \<and> kd_items (kdtree_balance (insert_enumerated (kdtree_new (length centers)) 0 centers))
           = zip centers [0 ..< length centers]"
    by (simp add: kdtree_balance_def insert_enumerated_items insert_enumerated_size kdtree_new_def)
  show ?thesis using avg nearest tree by blast
qed

theorem to_point_multiple_selected_by_mode_witness:
  "2 \<le> length [10, 20, 30 :: int] \<and>
   to_point \<lparr>falloff_type = ''NONE'', clamp = False, attractor_type = ''Point'',
             point_mode = ''AVG'', outputs_linked = [True]\<rparr> [10, 20, 30 :: int] (None :: unit option)
     = (SvExAverageVectorField
          [SvExVectorFieldPointDistance 10 None, SvExVectorFieldPointDistance 20 None,
           SvExVectorFieldPointDistance 30 None],
        SvExMergedScalarField ''AVG''
          [SvExScalarFieldPointDistance 10 None, SvExScalarFieldPointDistance 20 None,
           SvExScalarFieldPointDistance 30 None]) \<and>
   to_point \<lparr>falloff_type = ''NONE'', clamp = False, attractor_type = ''Point'',
             point_mode = ''MIN'', outputs_linked = [True]\<rparr> [10, 20, 30 :: int] (None :: unit option)
     = (SvExKdtVectorField (KDTree 3 [(10, 0), (20, 1), (30, 2)] True) None,
        SvExKdtScalarField (KDTree 3 [(10, 0), (20, 1), (30, 2)] True) None)"
  using to_point_multiple_selected_by_mode
    [of "[10, 20, 30 :: int]"
        "\<lparr>falloff_type = ''NONE'', clamp = False, attractor_type = ''Point'',
             point_mode = ''AVG'', outputs_linked = [True]\<rparr>" "None :: unit option"]
    to_point_multiple_selected_by_mode
    [of "[10, 20, 30 :: int]"
        "\<lparr>falloff_type = ''NONE'', clamp = False, attractor_type = ''Point'',
             point_mode = ''MIN'', outputs_linked = [True]\<rparr>" "None :: unit option"]
  by (simp add: to_point_def kdtree_new_def kdtree_insert_def kdtree_balance_def Let_def)

subsection \<open>Line and plane: the first center and the first direction\<close>

lemma process_object_first_only:
  assumes "attractor_type node = ''Line'' \<or> attractor_type node = ''Plane''"
  shows "process_object node falloff (first_center_and_direction obj) = process_object node falloff obj"
proof (cases obj)
  case (fields centers direction amplitude coefficient)
  from assms show ?thesis
    by (elim disjE)
       (simp_all add: fields process_object_def first_center_and_direction_def index0_take1)
qed

lemma process_objects_first_only:
  assumes "attractor_type node = ''Line'' \<or> attractor_type node = ''Plane''"
  shows "process_objects node falloff (map first_center_and_direction objects) out
           = process_objects node falloff objects out"
  by (induction objects arbitrary: out) (simp_all add: process_object_first_only [OF assms])

text \<open>
  Claim C10. For the attractor types 'Line' and 'Plane', two inputs whose objects agree
  on the first center, the first direction, the amplitude and the coefficient give the
  same result of \<^verbatim>\<open>process\<close>: the centers and directions after the first of an object
  have no effect on the output.
\<close>

theorem line_plane_use_first_center_and_direction:
  assumes "attractor_type node = ''Line'' \<or> attractor_type node = ''Plane''"
      and "map first_center_and_direction objects = map first_center_and_direction objects'"
  shows "process node falloff objects = process node falloff objects'"
proof -
  have "process_objects node falloff objects ([], [])
          = process_objects node falloff (map first_center_and_direction objects) ([], [])"
    by (simp add: process_objects_first_only [OF assms(1)])
  also have "\<dots> = process_objects node falloff objects' ([], [])"
    by (simp add: assms(2) process_objects_first_only [OF assms(1)])
  finally show ?thesis by (simp add: process_def)
qed

theorem line_plane_use_first_center_and_direction_witness:
  "(attractor_type \<lparr>falloff_type = ''NONE'', clamp = False, attractor_type = ''Line'',
                    point_mode = ''AVG'', outputs_linked = [True]\<rparr> = ''Line''
    \<or> attractor_type \<lparr>falloff_type = ''NONE'', clamp = False, attractor_type = ''Line'',
                    point_mode = ''AVG'', outputs_linked = [True]\<rparr> = ''Plane'') \<and>
   map first_center_and_direction [([1, 2, 3 :: int], [7, 8], FloatV (0::int), FloatV 0)]
     = map first_center_and_direction [([1, 9 :: int], [7], FloatV (0::int), FloatV 0)] \<and>
   process \<lparr>falloff_type = ''NONE'', clamp = False, attractor_type = ''Line'',
            point_mode = ''AVG'', outputs_linked = [True]\<rparr> falloff_closure
       [([1, 2, 3 :: int], [7, 8], FloatV (0::int), FloatV 0)]
     = Inr (Some ([SvExLineAttractorVectorField 1 7 None], [SvExLineAttractorScalarField 1 7 None])) \<and>
   process \<lparr>falloff_type = ''NONE'', clamp = False, attractor_type = ''Line'',
            point_mode = ''AVG'', outputs_linked = [True]\<rparr> falloff_closure
       [([1, 9 :: int], [7], FloatV (0::int), FloatV 0)]
     = Inr (Some ([SvExLineAttractorVectorField 1 7 None], [SvExLineAttractorScalarField 1 7 None]))"
  using line_plane_use_first_center_and_direction
    [of "\<lparr>falloff_type = ''NONE'', clamp = False, attractor_type = ''Line'',
            point_mode = ''AVG'', outputs_linked = [True]\<rparr>"
        "[([1, 2, 3 :: int], [7, 8], FloatV (0::int), FloatV 0)]"
        "[([1, 9 :: int], [7], FloatV (0::int), FloatV 0)]" falloff_closure]
  by (simp add: process_def process_object_def to_line_def first_center_and_direction_def)

subsection \<open>An attractor type outside the three supported ones\<close>

lemma process_object_unsupported:
  assumes "attractor_type node \<notin> {''Point'', ''Line'', ''Plane''}"
  shows "\<exists>e. process_object node falloff obj = Inl e"
proof (cases obj)
  case (fields centers direction amplitude coefficient)
  show ?thesis
  proof (cases "first_if_list_or_tuple amplitude")
    case (Inl e)
    then show ?thesis by (simp add: fields process_object_def)
  next
    case a: (Inr a)
    show ?thesis
    proof (cases "first_if_list_or_tuple coefficient")
      case (Inl e)
      then show ?thesis by (simp add: fields process_object_def a)
    next
      case c: (Inr c)
      show ?thesis
      proof (cases "falloff_type node = ''NONE''")
        case True
        then show ?thesis using assms by (simp add: fields process_object_def a c)
      next
        case False
        then show ?thesis using assms
          by (cases "falloff (falloff_type node) a c (clamp node)")
             (simp_all add: fields process_object_def a c)
      qed
    qed
  qed
qed

lemma process_object_unsupported_generic:
  assumes "attractor_type node \<notin> {''Point'', ''Line'', ''Plane''}"
      and "first_if_list_or_tuple amplitude = Inr a"
      and "first_if_list_or_tuple coefficient = Inr c"
      and "falloff_type node = ''NONE'' \<or> (\<exists>f. falloff (falloff_type node) a c (clamp node) = Inr f)"
  shows "process_object node falloff (centers, direction, amplitude, coefficient)
           = Inl (GenericException ''not implemented yet'')"
  using assms by (auto simp add: process_object_def)

lemma process_when_linked:
  "py_any (outputs_linked node) \<Longrightarrow>
     process node falloff objects
       = and_then (process_objects node falloff objects ([], [])) (\<lambda>out. Inr (Some out))"
  by (simp add: process_def)

lemma process_returns_Some:
  assumes "process node falloff objects = Inr (Some out)"
  shows "process_objects node falloff objects ([], []) = Inr out"
proof (cases "py_any (outputs_linked node)")
  case True
  show ?thesis
  proof (cases "process_objects node falloff objects ([], [])")
    case (Inl e)
    then show ?thesis using assms by (simp add: process_when_linked [OF True])
  next
    case (Inr out')
    then show ?thesis using assms by (simp add: process_when_linked [OF True])
  qed
next
  case False
  then show ?thesis using assms by (simp add: process_def)
qed

lemma process_objects_raises_at_head:
  "process_object node falloff obj = Inl e \<Longrightarrow>
     process_objects node falloff (obj # objs) out = Inl e"
  by simp

text \<open>
  Claim C7, as amended. For an attractor type other than 'Point', 'Line' and 'Plane':
  when at least one output socket is linked and there is at least one object,
  \<^verbatim>\<open>process\<close> raises an exception; the exception is the generic
  \<^verbatim>\<open>Exception("not implemented yet")\<close> when the amplitude and the coefficient of the
  first object are read and its falloff function is built without an exception; and in
  no case is a field emitted.
\<close>

theorem unsupported_attractor_type_raises_when_reached:
  assumes "attractor_type node \<notin> {''Point'', ''Line'', ''Plane''}"
  shows "(py_any (outputs_linked node) \<and> objects \<noteq> [] \<longrightarrow>
            (\<exists>e. process node falloff objects = Inl e))
       \<and> (\<forall>centers direction amplitude coefficient rest a c.
            py_any (outputs_linked node)
            \<and> objects = (centers, direction, amplitude, coefficient) # rest
            \<and> first_if_list_or_tuple amplitude = Inr a
            \<and> first_if_list_or_tuple coefficient = Inr c
            \<and> (falloff_type node = ''NONE'' \<or> (\<exists>f. falloff (falloff_type node) a c (clamp node) = Inr f))
            \<longrightarrow> process node falloff objects = Inl (GenericException ''not implemented yet''))
       \<and> (\<forall>vfields sfields. process node falloff objects = Inr (Some (vfields, sfields))
            \<longrightarrow> vfields = [] \<and> sfields = [])"
proof (intro conjI allI impI)
  assume "py_any (outputs_linked node) \<and> objects \<noteq> []"
  then obtain obj objs where linked: "py_any (outputs_linked node)" and objs: "objects = obj # objs"
    by (cases objects) simp_all
  obtain e where "process_object node falloff obj = Inl e"
    using process_object_unsupported [OF assms] by blast
  then have "process_objects node falloff objects ([], []) = Inl e"
    unfolding objs by (rule process_objects_raises_at_head)
  then have "process node falloff objects = Inl e"
    by (simp add: process_when_linked [OF linked])
  then show "\<exists>e. process node falloff objects = Inl e" ..
next
  fix centers direction amplitude coefficient rest a c
  assume h: "py_any (outputs_linked node)
            \<and> objects = (centers, direction, amplitude, coefficient) # rest
            \<and> first_if_list_or_tuple amplitude = Inr a
            \<and> first_if_list_or_tuple coefficient = Inr c
            \<and> (falloff_type node = ''NONE'' \<or> (\<exists>f. falloff (falloff_type node) a c (clamp node) = Inr f))"
  then have linked: "py_any (outputs_linked node)"
    and objs: "objects = (centers, direction, amplitude, coefficient) # rest"
    and a: "first_if_list_or_tuple amplitude = Inr a"
    and c: "first_if_list_or_tuple coefficient = Inr c"
    and f: "falloff_type node = ''NONE'' \<or> (\<exists>f. falloff (falloff_type node) a c (clamp node) = Inr f)"
    by blast+
  have "process_object node falloff (centers, direction, amplitude, coefficient)
           = Inl (GenericException ''not implemented yet'')"
    by (rule process_object_unsupported_generic [where falloff = falloff, OF assms a c f])
  then have "process_objects node falloff objects ([], []) = Inl (GenericException ''not implemented yet'')"
    unfolding objs by (rule process_objects_raises_at_head)
  then show "process node falloff objects = Inl (GenericException ''not implemented yet'')"
    by (simp add: process_when_linked [OF linked])
next
  fix vfields sfields
  assume r: "process node falloff objects = Inr (Some (vfields, sfields))"
  have ran: "process_objects node falloff objects ([], []) = Inr (vfields, sfields)"
    by (rule process_returns_Some [OF r])
  have "objects = [] \<and> (vfields, sfields) = ([], [])"
  proof (cases objects)
    case Nil
    then show ?thesis using ran by simp
  next
    case (Cons obj objs)
    obtain e where "process_object node falloff obj = Inl e"
      using process_object_unsupported [OF assms] by blast
    then have "process_objects node falloff objects ([], []) = Inl e"
      unfolding Cons by (rule process_objects_raises_at_head)
    then show ?thesis using ran by simp
  qed
  then show "vfields = []" and "sfields = []" by simp_all
qed

theorem unsupported_attractor_type_raises_when_reached_witness:
  "attractor_type \<lparr>falloff_type = ''gauss'', clamp = False, attractor_type = ''Circle'',
                   point_mode = ''AVG'', outputs_linked = [False, True]\<rparr>
      \<notin> {''Point'', ''Line'', ''Plane''} \<and>
   process \<lparr>falloff_type = ''gauss'', clamp = False, attractor_type = ''Circle'',
            point_mode = ''AVG'', outputs_linked = [False, True]\<rparr> falloff_closure
       [([1 :: int], [2], TupleV [FloatV (5::int)], FloatV 6)]
     = Inl (GenericException ''not implemented yet'')"
  using unsupported_attractor_type_raises_when_reached
    [of "\<lparr>falloff_type = ''gauss'', clamp = False, attractor_type = ''Circle'',
            point_mode = ''AVG'', outputs_linked = [False, True]\<rparr>"
        "[([1 :: int], [2], TupleV [FloatV (5::int)], FloatV 6)]" falloff_closure]
  by (simp add: falloff_closure_def)

text \<open>
  Claim C7 as stated fails where no output socket is linked: \<^verbatim>\<open>process\<close> returns at
  line 118, before the attractor type is looked at, and raises nothing.
\<close>

theorem unsupported_attractor_type_unlinked_counterexample:
  "attractor_type \<lparr>falloff_type = ''NONE'', clamp = False, attractor_type = ''Circle'',
                   point_mode = ''AVG'', outputs_linked = [False, False]\<rparr>
      \<notin> {''Point'', ''Line'', ''Plane''} \<and>
   process \<lparr>falloff_type = ''NONE'', clamp = False, attractor_type = ''Circle'',
            point_mode = ''AVG'', outputs_linked = [False, False]\<rparr> falloff_closure
       [([1 :: int], [2], FloatV (5::int), FloatV 6)]
     = Inr None"
  by (simp add: process_def)

text \<open>
  With no object to process the loop body never runs: both sockets receive the empty
  list and nothing is raised.
\<close>

lemma unsupported_attractor_type_no_objects_example:
  "process \<lparr>falloff_type = ''NONE'', clamp = False, attractor_type = ''Circle'',
            point_mode = ''AVG'', outputs_linked = [True]\<rparr> falloff_closure
       ([] :: (int, int) attractor_object list)
     = Inr (Some ([], []))"
  by (simp add: process_def)

section \<open>Properties of the RBF-curve node\<close>

subsection \<open>The optional dependency\<close>

lemma module_names_without_scipy:
  "module_names (None :: 's option) =
     [''np'', ''bpy'', ''FloatProperty'', ''EnumProperty'', ''BoolProperty'', ''IntProperty'',
      ''SverchCustomTreeNode'', ''throttled'', ''updateNode'', ''zip_long_repeat'',
      ''ensure_nesting_level'', ''info'', ''exception'', ''make_euclidian_ts'', ''rbf_functions'',
      ''SvExRbfCurve'', ''scipy'', ''register'', ''unregister'']"
  by (simp add: module_names_def rbf_curve_module_def)

lemma module_names_with_scipy:
  "module_names (Some s) =
     [''np'', ''bpy'', ''FloatProperty'', ''EnumProperty'', ''BoolProperty'', ''IntProperty'',
      ''SverchCustomTreeNode'', ''throttled'', ''updateNode'', ''zip_long_repeat'',
      ''ensure_nesting_level'', ''info'', ''exception'', ''make_euclidian_ts'', ''rbf_functions'',
      ''SvExRbfCurve'', ''scipy'', ''Rbf'', ''SvExRbfCurveNode'', ''register'', ''unregister'']"
  by (simp add: module_names_def rbf_curve_module_def)

lemma lookup_global_scipy: "lookup_global scipy ''scipy'' = Inr ''scipy''"
  by (cases scipy) (simp_all add: lookup_global_def module_names_without_scipy module_names_with_scipy)

lemma lookup_global_bpy: "lookup_global scipy ''bpy'' = Inr ''bpy''"
  by (cases scipy) (simp_all add: lookup_global_def module_names_without_scipy module_names_with_scipy)

lemma lookup_global_node_class:
  "lookup_global scipy ''SvExRbfCurveNode'' =
     (if scipy \<noteq> None then Inr ''SvExRbfCurveNode'' else Inl NameError)"
  by (cases scipy) (simp_all add: lookup_global_def module_names_without_scipy module_names_with_scipy)

lemma register_without_scipy: "register None register_class host = Inr host"
  by (simp add: register_def lookup_global_scipy)

lemma register_with_scipy:
  "register (Some s) register_class host = register_class ''SvExRbfCurveNode'' host"
  by (simp add: register_def lookup_global_scipy lookup_global_bpy lookup_global_node_class)

lemma unregister_without_scipy: "unregister None unregister_class host = Inr host"
  by (simp add: unregister_def lookup_global_scipy)

lemma unregister_with_scipy:
  "unregister (Some s) unregister_class host = unregister_class ''SvExRbfCurveNode'' host"
  by (simp add: unregister_def lookup_global_scipy lookup_global_bpy lookup_global_node_class)

text \<open>
  Claim C8. Without scipy the module binds neither \<^verbatim>\<open>Rbf\<close> nor the node class, and
  \<^verbatim>\<open>register\<close> and \<^verbatim>\<open>unregister\<close> return without a call to the host, whatever
  the host is: nothing is registered and nothing is raised. With scipy the node class is
  bound, and \<^verbatim>\<open>register\<close> is the host's registration of exactly that class,
  \<^verbatim>\<open>unregister\<close> the host's unregistration of it: the class is registered when the
  host accepts it, and what the host raises is raised. The module itself never fails:
  an exception of \<^verbatim>\<open>register\<close> or \<^verbatim>\<open>unregister\<close> is one the host raised for the node
  class, with scipy present.
\<close>

theorem scipy_guard_all_or_nothing:
  "(scipy = None \<longrightarrow>
      ''SvExRbfCurveNode'' \<notin> set (module_names scipy) \<and> ''Rbf'' \<notin> set (module_names scipy)
      \<and> register scipy register_class host = Inr host
      \<and> unregister scipy unregister_class host = Inr host)
   \<and> (scipy \<noteq> None \<longrightarrow>
      ''SvExRbfCurveNode'' \<in> set (module_names scipy) \<and> ''Rbf'' \<in> set (module_names scipy)
      \<and> register scipy register_class host = register_class ''SvExRbfCurveNode'' host
      \<and> unregister scipy unregister_class host = unregister_class ''SvExRbfCurveNode'' host)
   \<and> (\<forall>e. register scipy register_class host = Inl e \<longrightarrow>
          scipy \<noteq> None \<and> register_class ''SvExRbfCurveNode'' host = Inl e)
   \<and> (\<forall>e. unregister scipy unregister_class host = Inl e \<longrightarrow>
          scipy \<noteq> None \<and> unregister_class ''SvExRbfCurveNode'' host = Inl e)"
proof (cases scipy)
  case None
  show ?thesis
    unfolding None
    by (simp add: module_names_without_scipy register_without_scipy unregister_without_scipy)
next
  case (Some s)
  show ?thesis
    unfolding Some
    by (simp add: module_names_with_scipy register_with_scipy unregister_with_scipy)
qed

theorem scipy_guard_all_or_nothing_witness:
  "''SvExRbfCurveNode'' \<notin> set (module_names (None :: unit option))
   \<and> register (None :: unit option) bpy_register_class [] = Inr []
   \<and> unregister (None :: unit option) bpy_unregister_class [] = Inr []
   \<and> ''SvExRbfCurveNode'' \<in> set (module_names (Some ()))
   \<and> register (Some ()) bpy_register_class [] = Inr [''SvExRbfCurveNode'']
   \<and> unregister (Some ()) bpy_unregister_class [''SvExRbfCurveNode''] = Inr []"
  using scipy_guard_all_or_nothing [of "None :: unit option" bpy_register_class "[]" bpy_unregister_class]
    scipy_guard_all_or_nothing [of "Some ()" bpy_register_class "[]" bpy_unregister_class]
    scipy_guard_all_or_nothing [of "Some ()" bpy_register_class "[''SvExRbfCurveNode'']" bpy_unregister_class]
  by (simp add: bpy_register_class_def bpy_unregister_class_def)

text \<open>
  With scipy present the host's refusal leaves the function: a second registration and
  an unregistration of a class that was never registered raise.
\<close>

lemma register_twice_example:
  "register (Some ()) bpy_register_class [''SvExRbfCurveNode''] = Inl ValueError"
  by (simp add: register_with_scipy bpy_register_class_def)

lemma unregister_unregistered_example:
  "unregister (Some ()) bpy_unregister_class [] = Inl RuntimeError"
  by (simp add: unregister_with_scipy bpy_unregister_class_def)

subsection \<open>The parameter domain of the curves\<close>

text \<open>
  A tuple read from the Epsilon socket reaches \<^verbatim>\<open>Rbf\<close> as it is; a list gives its
  first element.
\<close>

lemma first_if_list_or_int_example:
  "first_if_list_or_int (TupleV [FloatV (1::int)]) = Inr (TupleV [FloatV 1])
   \<and> first_if_list_or_int (TupleV ([] :: int sv_item list)) = Inr (TupleV [])
   \<and> first_if_list_or_int (ListV [FloatV (1::int)]) = Inr (FloatV 1)
   \<and> first_if_list_or_int (ListV ([] :: int sv_item list)) = Inl IndexError
   \<and> first_if_list_or_int (IntV 1 :: int sv_item) = Inl TypeError"
  by simp

lemma process_curve_object_bounds:
  "process_curve_object node make_ts Rbf obj = Inr curve \<Longrightarrow> u_bounds curve = (0, 1)"
  by (cases obj)
     (auto simp add: process_curve_object_def and_then_def split: sum.splits)

lemma process_curve_objects_bounds:
  "process_curve_objects node make_ts Rbf objects acc = Inr out \<Longrightarrow>
     \<exists>new. out = acc @ new \<and> length new = length objects \<and> (\<forall>curve \<in> set new. u_bounds curve = (0, 1))"
proof (induction objects arbitrary: acc)
  case Nil
  then show ?case by simp
next
  case (Cons obj objs)
  from Cons.prems obtain curve where
    c: "process_curve_object node make_ts Rbf obj = Inr curve" and
    rest: "process_curve_objects node make_ts Rbf objs (acc @ [curve]) = Inr out"
    by (cases "process_curve_object node make_ts Rbf obj") simp_all
  from Cons.IH [OF rest] obtain new where
    new: "out = (acc @ [curve]) @ new" "length new = length objs" "\<forall>curve \<in> set new. u_bounds curve = (0, 1)"
    by blast
  have "out = acc @ (curve # new)" using new(1) by simp
  moreover have "length (curve # new) = length (obj # objs)" using new(2) by simp
  moreover have "\<forall>k \<in> set (curve # new). u_bounds k = (0, 1)"
    using new(3) process_curve_object_bounds [OF c] by simp
  ultimately show ?case by blast
qed

text \<open>
  Claim C9. Whenever \<^verbatim>\<open>SvExRbfCurveNode.process\<close> writes its output socket, it writes
  one curve per object and every curve was constructed with the parameter domain
  \<^verbatim>\<open>(0.0, 1.0)\<close>, whatever the vertices, the kernel, smooth and epsilon are and
  whatever \<^verbatim>\<open>make_euclidian_ts\<close> and \<^verbatim>\<open>Rbf\<close> return.
\<close>

theorem rbf_curves_have_unit_domain:
  assumes "process_curves node make_ts Rbf objects = Inr (Some curves)"
  shows "length curves = length objects \<and> (\<forall>curve \<in> set curves. u_bounds curve = (0.0, 1.0))"
proof -
  from assms have "process_curve_objects node make_ts Rbf objects [] = Inr curves"
    by (cases "process_curve_objects node make_ts Rbf objects []")
       (auto simp add: process_curves_def split: if_splits)
  from process_curve_objects_bounds [OF this] show ?thesis by auto
qed

text \<open>
  The loop returns when no object raises.
\<close>

lemma process_curve_objects_returns:
  "\<forall>obj \<in> set objects. \<exists>curve. process_curve_object node make_ts Rbf obj = Inr curve \<Longrightarrow>
     \<exists>out. process_curve_objects node make_ts Rbf objects acc = Inr out"
  by (induction objects arbitrary: acc) auto

theorem rbf_curves_have_unit_domain_witness:
  "process_curves \<lparr>rbf_function = ''multiquadric'', curve_outputs_linked = [True]\<rparr>
      (\<lambda>vertices. Inr (cumulative_distances vertices)) rbf_closure
      [([(0, 0, 0), (1, 0, 0)], ListV [FloatV (1::real)], FloatV 0)]
    = Inr (Some [\<lparr>rbf = RbfClosure [0, 1] [(0, 0, 0), (1, 0, 0)] ''multiquadric'' (FloatV 0) (FloatV 1) ''N-D'',
                  u_bounds = (0, 1)\<rparr>])
   \<and> u_bounds \<lparr>rbf = RbfClosure [0, 1 :: real] [(0, 0, 0), (1, 0, 0) :: point] ''multiquadric''
                      (FloatV (0::real)) (FloatV 1) ''N-D'',
                u_bounds = (0, 1)\<rparr> = (0, 1)"
proof -
  have run: "process_curves \<lparr>rbf_function = ''multiquadric'', curve_outputs_linked = [True]\<rparr>
      (\<lambda>vertices. Inr (cumulative_distances vertices)) rbf_closure
      [([(0, 0, 0), (1, 0, 0)], ListV [FloatV (1::real)], FloatV 0)]
    = Inr (Some [\<lparr>rbf = RbfClosure [0, 1] [(0, 0, 0), (1, 0, 0)] ''multiquadric'' (FloatV 0) (FloatV 1) ''N-D'',
                  u_bounds = (0, 1)\<rparr>])"
    by (simp add: process_curves_def process_curve_object_def rbf_closure_def euclidean_distance_def)
  show ?thesis
    using run rbf_curves_have_unit_domain [OF run] by simp
qed

subsection \<open>The arc-length parametrisation is cumulative and non-decreasing\<close>

lemma euclidean_distance_nonneg: "0 \<le> euclidean_distance p q"
  by (cases p, cases q) (simp add: euclidean_distance_def)

lemma euclidean_distance_zero_iff: "euclidean_distance p q = 0 \<longleftrightarrow> p = q"
proof (cases p, cases q)
  fix x y z x' y' z'
  assume p: "p = (x, y, z)" and q: "q = (x', y', z')"
  have "(x - x')\<^sup>2 + (y - y')\<^sup>2 + (z - z')\<^sup>2 = 0 \<longleftrightarrow> x = x' \<and> y = y' \<and> z = z'"
    by (simp add: sum_power2_eq_zero_iff add_nonneg_eq_0_iff)
  then show ?thesis
    by (simp add: p q euclidean_distance_def)
qed

lemma path_length_Cons:
  "path_length (p # ps) (Suc j) = euclidean_distance p (ps ! 0) + path_length ps j"
  by (induction j) simp_all

lemma cumulative_from_length: "length (cumulative_from t p ps) = Suc (length ps)"
  by (induction ps arbitrary: t p) simp_all

lemma cumulative_from_nth:
  "i \<le> length ps \<Longrightarrow> cumulative_from t p ps ! i = t + path_length (p # ps) i"
proof (induction ps arbitrary: t p i)
  case Nil
  then show ?case by simp
next
  case (Cons q ps)
  show ?case
  proof (cases i)
    case 0
    then show ?thesis by simp
  next
    case (Suc j)
    then have "j \<le> length ps" using Cons.prems by simp
    then have "cumulative_from (t + euclidean_distance p q) q ps ! j
                 = t + euclidean_distance p q + path_length (q # ps) j"
      by (rule Cons.IH)
    moreover have "path_length (p # q # ps) (Suc j) = euclidean_distance p q + path_length (q # ps) j"
      using path_length_Cons [of p "q # ps" j] by simp
    ultimately show ?thesis
      unfolding Suc by simp
  qed
qed

lemma cumulative_distances_length: "length (cumulative_distances pts) = length pts"
  by (cases pts) (simp_all add: cumulative_from_length)

lemma cumulative_distances_nth:
  "i < length pts \<Longrightarrow> cumulative_distances pts ! i = path_length pts i"
  by (cases pts) (simp_all add: cumulative_from_nth)

lemma cumulative_distances_eq:
  "cumulative_distances pts = map (path_length pts) [0 ..< length pts]"
  by (rule nth_equalityI) (simp_all add: cumulative_distances_length cumulative_distances_nth)

lemma path_length_mono: "i \<le> j \<Longrightarrow> path_length pts i \<le> path_length pts j"
  by (rule lift_Suc_mono_le [of "path_length pts"]) (simp_all add: euclidean_distance_nonneg)

lemma path_length_nonneg: "0 \<le> path_length pts i"
  using path_length_mono [of 0 i pts] by simp

lemma path_length_zero_iff:
  "path_length pts n = 0 \<longleftrightarrow> (\<forall>i < n. pts ! i = pts ! Suc i)"
proof (induction n)
  case 0
  then show ?case by simp
next
  case (Suc n)
  have "path_length pts (Suc n) = 0
          \<longleftrightarrow> path_length pts n = 0 \<and> euclidean_distance (pts ! n) (pts ! Suc n) = 0"
    by (simp add: add_nonneg_eq_0_iff path_length_nonneg euclidean_distance_nonneg)
  then show ?case
    by (simp add: Suc.IH euclidean_distance_zero_iff less_Suc_eq) blast
qed

lemma last_cumulative_distances:
  "pts \<noteq> [] \<Longrightarrow> last (cumulative_distances pts) = path_length pts (length pts - 1)"
proof -
  assume ne: "pts \<noteq> []"
  then have "cumulative_distances pts \<noteq> []"
    using cumulative_distances_length [of pts] by auto
  then have "last (cumulative_distances pts) = cumulative_distances pts ! (length pts - 1)"
    by (simp add: last_conv_nth cumulative_distances_length)
  also have "\<dots> = path_length pts (length pts - 1)"
    using ne by (simp add: cumulative_distances_nth)
  finally show ?thesis .
qed

lemma make_euclidian_ts_raw:
  "make_euclidian_ts False pts = Some (map (path_length pts) [0 ..< length pts])"
  by (simp add: make_euclidian_ts_def cumulative_distances_eq)

lemma make_euclidian_ts_normalized:
  assumes "pts \<noteq> []"
  shows "make_euclidian_ts True pts =
           (if path_length pts (length pts - 1) = 0 then None
            else Some (map (\<lambda>i. path_length pts i / path_length pts (length pts - 1)) [0 ..< length pts]))"
proof -
  have ne: "cumulative_distances pts \<noteq> []"
    using assms cumulative_distances_length [of pts] by auto
  have "map (\<lambda>t. t / path_length pts (length pts - 1)) (cumulative_distances pts)
          = map (\<lambda>i. path_length pts i / path_length pts (length pts - 1)) [0 ..< length pts]"
    by (simp add: cumulative_distances_eq)
  then show ?thesis
    using ne by (simp add: make_euclidian_ts_def Let_def last_cumulative_distances [OF assms])
qed

lemma make_euclidian_ts_length:
  assumes "make_euclidian_ts normalized pts = Some ts"
  shows "length ts = length pts"
  using assms
  by (auto simp add: make_euclidian_ts_def Let_def cumulative_distances_length split: if_splits)

lemma make_euclidian_ts_mono:
  assumes "make_euclidian_ts normalized pts = Some ts" and "i \<le> j" and "j < length pts"
  shows "ts ! i \<le> ts ! j"
proof (cases normalized)
  case False
  then have "ts = map (path_length pts) [0 ..< length pts]"
    using assms(1) make_euclidian_ts_raw [of pts] by simp
  then show ?thesis using assms(2,3) by (simp add: path_length_mono)
next
  case True
  have ne: "pts \<noteq> []" using assms(3) by auto
  let ?total = "path_length pts (length pts - 1)"
  from assms(1) True have nz: "?total \<noteq> 0"
    and ts: "ts = map (\<lambda>i. path_length pts i / ?total) [0 ..< length pts]"
    by (simp_all add: make_euclidian_ts_normalized [OF ne] split: if_splits)
  have "0 \<le> ?total" by (rule path_length_nonneg)
  moreover have "path_length pts i \<le> path_length pts j" using assms(2) by (rule path_length_mono)
  ultimately have "path_length pts i / ?total \<le> path_length pts j / ?total"
    by (rule divide_right_mono [rotated])
  then show ?thesis using assms(2,3) by (simp add: ts)
qed

text \<open>
  Claim C2. For at least two points, the parameter value of point number \<open>i\<close> is the
  cumulative Euclidean distance from the first point to it along the polyline: left raw
  it is \<open>path_length pts i\<close>; normalised it is that length divided by the total length,
  and there is no normalised parametrisation when the total length is zero. The values
  are monotonically increasing in the weak sense: a later point never has a smaller
  value than an earlier one.
\<close>

theorem make_euclidian_ts_is_cumulative_distance:
  assumes "2 \<le> length pts"
  shows "make_euclidian_ts False pts = Some (map (path_length pts) [0 ..< length pts])
       \<and> make_euclidian_ts True pts =
           (if path_length pts (length pts - 1) = 0 then None
            else Some (map (\<lambda>i. path_length pts i / path_length pts (length pts - 1)) [0 ..< length pts]))
       \<and> (\<forall>normalized ts i j. make_euclidian_ts normalized pts = Some ts \<and> i \<le> j \<and> j < length pts
             \<longrightarrow> ts ! i \<le> ts ! j)"
proof -
  have ne: "pts \<noteq> []" using assms by auto
  show ?thesis
    using make_euclidian_ts_raw [of pts] make_euclidian_ts_normalized [OF ne]
      make_euclidian_ts_mono [of _ pts]
    by blast
qed

text \<open>
  Claim C3. For at least two points the raw parametrisation always exists, the
  normalised one exists unless all the points coincide, and every parametrisation
  produced has one value per point, each greater than or equal to the value of the
  previous point.
\<close>

theorem arc_length_parametrization_nondecreasing:
  assumes "2 \<le> length pts"
  shows "(\<exists>ts. make_euclidian_ts False pts = Some ts)
       \<and> (make_euclidian_ts True pts = None \<longleftrightarrow> (\<forall>i. Suc i < length pts \<longrightarrow> pts ! i = pts ! Suc i))
       \<and> (\<forall>normalized ts. make_euclidian_ts normalized pts = Some ts \<longrightarrow>
             length ts = length pts \<and> (\<forall>i. Suc i < length ts \<longrightarrow> ts ! i \<le> ts ! Suc i))"
proof (intro conjI allI impI)
  show "\<exists>ts. make_euclidian_ts False pts = Some ts"
    by (simp add: make_euclidian_ts_raw)
next
  have ne: "pts \<noteq> []" using assms by auto
  have "make_euclidian_ts True pts = None \<longleftrightarrow> path_length pts (length pts - 1) = 0"
    by (simp add: make_euclidian_ts_normalized [OF ne])
  also have "\<dots> \<longleftrightarrow> (\<forall>i < length pts - 1. pts ! i = pts ! Suc i)"
    by (rule path_length_zero_iff)
  also have "\<dots> \<longleftrightarrow> (\<forall>i. Suc i < length pts \<longrightarrow> pts ! i = pts ! Suc i)"
    by (simp add: less_diff_conv)
  finally show "make_euclidian_ts True pts = None \<longleftrightarrow> (\<forall>i. Suc i < length pts \<longrightarrow> pts ! i = pts ! Suc i)" .
next
  fix normalized ts
  assume "make_euclidian_ts normalized pts = Some ts"
  then show "length ts = length pts" by (rule make_euclidian_ts_length)
next
  fix normalized ts i
  assume ts: "make_euclidian_ts normalized pts = Some ts" and i: "Suc i < length ts"
  have "Suc i < length pts" using i make_euclidian_ts_length [OF ts] by simp
  with ts show "ts ! i \<le> ts ! Suc i"
    by (intro make_euclidian_ts_mono [of normalized pts ts i "Suc i"]) simp_all
qed

text \<open>
  The parametrisation on concrete points; two coinciding points have no normalised one.
\<close>

lemma cumulative_distances_example:
  "cumulative_distances [(0, 0, 0), (1, 0, 0), (1, 2, 0)] = [0, 1, 3]"
  by (simp add: euclidean_distance_def)

lemma make_euclidian_ts_raw_example:
  "make_euclidian_ts False [(0, 0, 0), (1, 0, 0), (1, 2, 0)] = Some [0, 1, 3]"
  by (simp add: make_euclidian_ts_def euclidean_distance_def)

lemma make_euclidian_ts_normalized_example:
  "make_euclidian_ts True [(0, 0, 0), (1, 0, 0), (1, 2, 0)] = Some [0, 1 / 3, 1]"
  by (simp add: make_euclidian_ts_def euclidean_distance_def)

lemma make_euclidian_ts_degenerate_example:
  "make_euclidian_ts True [(1, 2, 3), (1, 2, 3)] = None"
  by (simp add: make_euclidian_ts_def euclidean_distance_def)


theorem make_euclidian_ts_is_cumulative_distance_witness:
  "2 \<le> length [(0, 0, 0), (1, 0, 0), (1, 2, 0) :: point]
   \<and> make_euclidian_ts False [(0, 0, 0), (1, 0, 0), (1, 2, 0)] = Some [0, 1, 3]
   \<and> make_euclidian_ts True [(0, 0, 0), (1, 0, 0), (1, 2, 0)] = Some [0, 1 / 3, 1]
   \<and> path_length [(0, 0, 0), (1, 0, 0), (1, 2, 0)] 2 = 3"
  using make_euclidian_ts_is_cumulative_distance [of "[(0, 0, 0), (1, 0, 0), (1, 2, 0)]"]
  by (simp add: make_euclidian_ts_def euclidean_distance_def numeral_2_eq_2)

theorem arc_length_parametrization_nondecreasing_witness:
  "2 \<le> length [(0, 0, 0), (3, 0, 0), (3, 0, 0), (3, 0, 1) :: point]
   \<and> make_euclidian_ts False [(0, 0, 0), (3, 0, 0), (3, 0, 0), (3, 0, 1)] = Some [0, 3, 3, 4]
   \<and> make_euclidian_ts True [(0, 0, 0), (3, 0, 0), (3, 0, 0), (3, 0, 1)] = Some [0, 3 / 4, 3 / 4, 1]
   \<and> [0, 3 / 4, 3 / 4, 1 :: real] ! 1 \<le> [0, 3 / 4, 3 / 4, 1] ! Suc 1"
  using arc_length_parametrization_nondecreasing [of "[(0, 0, 0), (3, 0, 0), (3, 0, 0), (3, 0, 1)]"]
  by (simp add: make_euclidian_ts_def euclidean_distance_def)

end
